theory Spec2Isabelle
  imports Complex_Main
begin

section \<open>JavaScript numbers\<close>

text \<open>
  A JavaScript number is an IEEE double. The development reads a finite double as the
  real number it denotes (arithmetic is exact: rounding and overflow are left out, and
  the two zeros are one), and keeps the three values that are not real numbers:
  \<open>Infinity\<close>, \<open>-Infinity\<close> and \<open>NaN\<close>.
\<close>

datatype number = Fin real | PInf | NInf | NaN

fun is_fin :: "number \<Rightarrow> bool" where
  "is_fin (Fin _) = True"
| "is_fin _ = False"

fun num_neg :: "number \<Rightarrow> number" where
  "num_neg (Fin a) = Fin (- a)"
| "num_neg PInf = NInf"
| "num_neg NInf = PInf"
| "num_neg NaN = NaN"

fun num_add :: "number \<Rightarrow> number \<Rightarrow> number" where
  "num_add NaN _ = NaN"
| "num_add _ NaN = NaN"
| "num_add (Fin a) (Fin b) = Fin (a + b)"
| "num_add (Fin _) PInf = PInf"
| "num_add (Fin _) NInf = NInf"
| "num_add PInf NInf = NaN"
| "num_add NInf PInf = NaN"
| "num_add PInf _ = PInf"
| "num_add NInf _ = NInf"

definition num_sub :: "number \<Rightarrow> number \<Rightarrow> number" where
  "num_sub a b = num_add a (num_neg b)"

text \<open>The sign of a number, for the products and quotients of infinities.\<close>

fun num_sgn :: "number \<Rightarrow> int" where
  "num_sgn (Fin a) = (if a < 0 then - 1 else if a = 0 then 0 else 1)"
| "num_sgn PInf = 1"
| "num_sgn NInf = - 1"
| "num_sgn NaN = 0"

definition inf_of_sign :: "int \<Rightarrow> number" where
  "inf_of_sign s = (if s < 0 then NInf else if s = 0 then NaN else PInf)"

fun num_mul :: "number \<Rightarrow> number \<Rightarrow> number" where
  "num_mul NaN _ = NaN"
| "num_mul _ NaN = NaN"
| "num_mul (Fin a) (Fin b) = Fin (a * b)"
| "num_mul a b = inf_of_sign (num_sgn a * num_sgn b)"

text \<open>
  Division: a finite non-zero number over zero is an infinity of the dividend's sign
  (the divisor read as \<open>+0\<close>), zero over zero and infinity over infinity are
  \<open>NaN\<close>, and a finite number over an infinity is zero.
\<close>

fun num_div :: "number \<Rightarrow> number \<Rightarrow> number" where
  "num_div NaN _ = NaN"
| "num_div _ NaN = NaN"
| "num_div (Fin a) (Fin b) = (if b = 0 then inf_of_sign (num_sgn (Fin a)) else Fin (a / b))"
| "num_div (Fin _) _ = Fin 0"
| "num_div a (Fin b) = inf_of_sign (num_sgn a * (if b < 0 then - 1 else 1))"
| "num_div _ _ = NaN"

text \<open>\<open>a < b\<close> on numbers; every comparison with \<open>NaN\<close> is false.\<close>

fun num_less :: "number \<Rightarrow> number \<Rightarrow> bool" where
  "num_less NaN _ = False"
| "num_less _ NaN = False"
| "num_less (Fin a) (Fin b) = (a < b)"
| "num_less (Fin _) PInf = True"
| "num_less (Fin _) NInf = False"
| "num_less PInf _ = False"
| "num_less NInf NInf = False"
| "num_less NInf _ = True"

text \<open>
  Truthiness of a number, and \<open>a || b\<close> on numbers: zero and \<open>NaN\<close> are
  falsy, and \<open>||\<close> yields its left operand when that is truthy.
\<close>

fun truthy :: "number \<Rightarrow> bool" where
  "truthy (Fin a) = (a \<noteq> 0)"
| "truthy NaN = False"
| "truthy _ = True"

definition js_or :: "number \<Rightarrow> number \<Rightarrow> number" where
  "js_or a b = (if truthy a then a else b)"

text \<open>
  \<open>Math.min(...arr)\<close> and \<open>Math.max(...arr)\<close>: the scan starts from
  \<open>Infinity\<close> (from \<open>-Infinity\<close>) and any \<open>NaN\<close> argument makes the
  result \<open>NaN\<close>; with no argument the start value is the result.
\<close>

fun min_from :: "number \<Rightarrow> number list \<Rightarrow> number" where
  "min_from lowest [] = lowest"
| "min_from lowest (v # vs) =
     (if v = NaN then NaN else min_from (if num_less v lowest then v else lowest) vs)"

fun max_from :: "number \<Rightarrow> number list \<Rightarrow> number" where
  "max_from highest [] = highest"
| "max_from highest (v # vs) =
     (if v = NaN then NaN else max_from (if num_less highest v then v else highest) vs)"

definition Math_min :: "number list \<Rightarrow> number" where
  "Math_min arr = min_from PInf arr"

definition Math_max :: "number list \<Rightarrow> number" where
  "Math_max arr = max_from NInf arr"

section \<open>Series normalizer\<close>

text \<open>
  \<^verbatim>\<open>
  const normalize = (arr) => {
    const min = Math.min(...arr);
    const max = Math.max(...arr);
    const range = max - min || 1;
    return { norm: arr.map((v) => (v - min) / range), min, max };
  };
  const denormalize = (arr, min, max) => {
    const range = max - min || 1;
    return arr.map((v) => v * range + min);
  };
  \<close>
  The function \<open>normalize\<close> and the fields \<open>norm\<close>, \<open>min\<close> and \<open>max\<close> of its
  result carry the suffix \<open>_v\<close>, the plain names being constants of HOL. Both functions
  compute \<open>max - min || 1\<close>; it is \<open>range_of\<close> here.
\<close>

record normalized =
  norm_v :: "number list"
  min_v :: number
  max_v :: number

definition range_of :: "number \<Rightarrow> number \<Rightarrow> number" where
  "range_of mn mx = js_or (num_sub mx mn) (Fin 1)"

definition normalize_v :: "number list \<Rightarrow> normalized" where
  "normalize_v arr =
     (let mn = Math_min arr;
          mx = Math_max arr;
          range = range_of mn mx
      in \<lparr>norm_v = map (\<lambda>v. num_div (num_sub v mn) range) arr, min_v = mn, max_v = mx\<rparr>)"

definition denormalize :: "number list \<Rightarrow> number \<Rightarrow> number \<Rightarrow> number list" where
  "denormalize arr mn mx =
     (let range = range_of mn mx
      in map (\<lambda>v. num_add (num_mul v range) mn) arr)"

section \<open>Application state and environment\<close>

text \<open>
  The component \<open>StockPricePredictor\<close> keeps its state in React state variables. The
  record \<open>app\<close> holds the ones the training, prediction and model operations read or
  write, under their names in the source, and three more fields for what these
  operations do to the world outside the component:
  \<^item> \<open>alerts\<close>: the messages shown with \<open>alert\<close>, oldest first;
  \<^item> \<open>lossFrames\<close>: every value passed to \<open>setLossHistory\<close>, oldest first (what an
    observer of the training progress sees);
  \<^item> \<open>idb_model\<close>: the entry stored under \<open>indexeddb://lstm-stock-model\<close>, if any.

  A price point's \<open>date\<close> is a string \<open>YYYY-MM-DD\<close> in the source; here it is the day
  number of that date (days since 1970-01-01), so that \<open>new Date(date)\<close> is midnight
  UTC of that day and the first ten characters of \<open>toISOString()\<close> are the day number
  of a time value. An operation is run to its end on the state it was started in: no
  other handler runs while it awaits.
\<close>

record price_point =
  date :: int
  close :: number

record lstm_params =
  lookback :: nat
  units :: nat
  epochs :: nat
  batchSize :: nat
  lr :: real

text \<open>A thrown value: an \<open>Error\<close> object with its message.\<close>

datatype js_error = Error string

text \<open>A model of the TensorFlow.js library is opaque; it is known by a number.\<close>

type_synonym tf_model = nat

text \<open>
  What the state variable \<open>model\<close> holds when it is not \<open>null\<close>: the marker object
  \<open>{ mock: true, createdAt: Date.now() }\<close> of mock training, or a model of the library.
\<close>

datatype model_handle = MockModel int | LayersModel tf_model

record app =
  data :: "price_point list"
  predictions :: "price_point list"
  lstmParams :: lstm_params
  training :: bool
  lossHistory :: "number list"
  tfAvailable :: bool
  model :: "model_handle option"
  persistedModel :: bool
  mockMode :: bool
  alerts :: "string list"
  lossFrames :: "number list list"
  idb_model :: "tf_model option"

text \<open>
  The environment of one run of an operation: what the browser and the library answer.
  \<^item> \<open>idb_available\<close>: the result of \<open>indexedDBAvailable()\<close>;
  \<^item> \<open>tf_import\<close>, \<open>tf_ready\<close>: the error thrown by \<open>import('@tensorflow/tfjs')\<close> and
    by \<open>tf.ready()\<close>, if any;
  \<^item> \<open>tf_loadLayersModel\<close>, \<open>tf_removeModel\<close>: the outcome of loading and of removing
    the stored model, given the entry in the store;
  \<^item> \<open>tf_build\<close>: the error thrown while the tensors and the model are built and
    compiled, if any; \<open>tf_fit\<close>: the losses reported to \<open>onEpochEnd\<close>, in order, and
    then the error thrown by \<open>fit\<close> or the trained model; \<open>tf_save\<close>: the error thrown
    by saving to the store, if any;
  \<^item> \<open>tf_predict\<close>: the first value of the model's output for an input window, or the
    error thrown; \<open>tf_shape_error\<close>: the error \<open>reshape\<close> throws when the number of
    elements differs from the requested shape's; \<open>type_error\<close>: the error thrown by
    calling a method an object does not have;
  \<^item> \<open>random\<close>: the value of the \<open>k\<close>-th call of \<open>Math.random()\<close> in the run (counted
    from 0); \<open>now\<close>: \<open>Date.now()\<close> when mock training ends;
  \<^item> \<open>localTZA\<close>: the offset of local time from UTC in milliseconds, for a UTC time
    value (\<open>True\<close>) or for a local time value (\<open>False\<close>), as in ECMAScript's
    \<open>LocalTZA(t, isUTC)\<close>.
\<close>

record env =
  idb_available :: bool
  tf_import :: "js_error option"
  tf_ready :: "js_error option"
  tf_loadLayersModel :: "tf_model option \<Rightarrow> js_error + tf_model"
  tf_removeModel :: "tf_model option \<Rightarrow> js_error option"
  tf_build :: "number list list \<Rightarrow> number list \<Rightarrow> lstm_params \<Rightarrow> js_error option"
  tf_fit :: "number list list \<Rightarrow> number list \<Rightarrow> lstm_params
             \<Rightarrow> number list \<times> (js_error + tf_model)"
  tf_save :: "tf_model \<Rightarrow> js_error option"
  tf_predict :: "tf_model \<Rightarrow> number list \<Rightarrow> js_error + number"
  tf_shape_error :: js_error
  type_error :: js_error
  random :: "nat \<Rightarrow> real"
  now :: int
  localTZA :: "int \<Rightarrow> bool \<Rightarrow> int"

text \<open>
  How an asynchronous function ends: it returns, or a thrown value leaves it. Both carry
  the state reached, since the state changes made before a throw stay.
\<close>

datatype outcome = Returns app | Throws js_error app

text \<open>\<open>try { body } catch (err) { handler }\<close> and \<open>try { body } finally { f }\<close>.\<close>

definition try_catch :: "outcome \<Rightarrow> (js_error \<Rightarrow> app \<Rightarrow> outcome) \<Rightarrow> outcome" where
  "try_catch body handler = (case body of Returns s \<Rightarrow> Returns s | Throws e s \<Rightarrow> handler e s)"

definition try_finally :: "outcome \<Rightarrow> (app \<Rightarrow> app) \<Rightarrow> outcome" where
  "try_finally body f = (case body of Returns s \<Rightarrow> Returns (f s) | Throws e s \<Rightarrow> Throws e (f s))"

text \<open>The state an operation ends in, and the value that leaves it, if one does.\<close>

fun final :: "outcome \<Rightarrow> app" where
  "final (Returns s) = s"
| "final (Throws e s) = s"

fun thrown :: "outcome \<Rightarrow> js_error option" where
  "thrown (Returns s) = None"
| "thrown (Throws e s) = Some e"

text \<open>
  \<open>err?.message || err\<close> in a string concatenation: the message, or for an empty message
  the error itself, which prints as \<open>Error\<close>.
\<close>

fun err_text :: "js_error \<Rightarrow> string" where
  "err_text (Error m) = (if m = [] then ''Error'' else m)"

definition alert :: "string \<Rightarrow> app \<Rightarrow> app" where
  "alert msg s = s\<lparr>alerts := alerts s @ [msg]\<rparr>"

definition setLossHistory :: "number list \<Rightarrow> app \<Rightarrow> app" where
  "setLossHistory v s = s\<lparr>lossHistory := v, lossFrames := lossFrames s @ [v]\<rparr>"

text \<open>
  Every operation on the library starts with
  \<^verbatim>\<open>const tf = await import('@tensorflow/tfjs'); if (tf && tf.ready) await tf.ready();\<close>
\<close>

definition load_tf :: "env \<Rightarrow> js_error option" where
  "load_tf env = (case tf_import env of Some e \<Rightarrow> Some e | None \<Rightarrow> tf_ready env)"

section \<open>Calendar dates\<close>

text \<open>
  \<^verbatim>\<open>
  const lastDate = new Date(data[data.length - 1].date);
  const futureDates = Array.from({ length: horizon }, (_, i) => {
    const d = new Date(lastDate);
    d.setDate(d.getDate() + i + 1);
    return d.toISOString().slice(0, 10);
  });
  \<close>
  A \<open>Date\<close> is a time value: milliseconds since the epoch, in UTC. \<open>getDate\<close> reads
  the day of the month of the local time \<open>LocalTime(t)\<close>, and \<open>setDate(dt)\<close> makes the
  local time \<open>MakeDate(MakeDay(year, month, dt), TimeWithinDay(LocalTime(t)))\<close> and stores
  its \<open>UTC\<close>. \<open>MakeDay(year, month, dt)\<close> is the day number of the first of the month
  plus \<open>dt - 1\<close>, and \<open>getDate()\<close> is the local day number minus that of the first of
  the month plus 1: so \<open>d.setDate(d.getDate() + k)\<close> moves the local day number by \<open>k\<close>
  and keeps the local time within the day. That is \<open>setDate_getDate_plus\<close>.
  \<open>toISOString\<close> prints the time value in UTC.
\<close>

definition msPerDay :: int where
  "msPerDay = 86400000"

definition Day :: "int \<Rightarrow> int" where
  "Day t = t div msPerDay"

definition TimeWithinDay :: "int \<Rightarrow> int" where
  "TimeWithinDay t = t mod msPerDay"

definition LocalTime :: "env \<Rightarrow> int \<Rightarrow> int" where
  "LocalTime env t = t + localTZA env t True"

definition UTC :: "env \<Rightarrow> int \<Rightarrow> int" where
  "UTC env t = t - localTZA env t False"

definition new_Date :: "int \<Rightarrow> int" where
  "new_Date day = day * msPerDay"

definition setDate_getDate_plus :: "env \<Rightarrow> int \<Rightarrow> int \<Rightarrow> int" where
  "setDate_getDate_plus env t k =
     (let lt = LocalTime env t
      in UTC env ((Day lt + k) * msPerDay + TimeWithinDay lt))"

definition toISOString_date :: "int \<Rightarrow> int" where
  "toISOString_date t = Day t"

definition futureDates :: "env \<Rightarrow> int \<Rightarrow> nat \<Rightarrow> int list" where
  "futureDates env lastDate horizon =
     map (\<lambda>i. toISOString_date (setDate_getDate_plus env lastDate (int i + 1))) [0..<horizon]"

text \<open>
  \<open>futureDates.map((date, i) => ({ date, close: preds[i] }))\<close>; both arrays have
  \<open>horizon\<close> elements wherever it is called.
\<close>

definition pair_up :: "int list \<Rightarrow> number list \<Rightarrow> price_point list" where
  "pair_up dates preds = map (\<lambda>(d, c). \<lparr>date = d, close = c\<rparr>) (zip dates preds)"

section \<open>Mock engine\<close>

text \<open>
  \<^verbatim>\<open>
  const mockTrain = async () => {
    setTraining(true);
    setLossHistory([]);
    const epochs = Number(lstmParams.epochs || 10);
    const lossArr = [];
    for (let e = 0; e < epochs; e++) {
      const loss = Math.exp(-e / (epochs / 5)) + Math.random() * 0.05;
      lossArr.push(loss);
      setLossHistory([...lossArr]);
      await new Promise((r) => setTimeout(r, 200));
    }
    const mock = { mock: true, createdAt: Date.now() };
    setModel(mock);
    setPersistedModel(false);
    setTraining(false);
    alert('Mock training complete (TF not required).');
  };
  \<close>
  The loop runs on the counter \<open>e\<close>, the array \<open>lossArr\<close> and the state. All operands
  of the loss are finite (\<open>epochs\<close> is a positive integer where the loop body runs), so
  it is computed on the reals: \<open>mock_loss env n e\<close> is the loss of pass \<open>e\<close> of a run
  of \<open>n\<close> epochs, whose call of \<open>Math.random()\<close> is the call number \<open>e\<close>.
\<close>

definition mock_loss :: "env \<Rightarrow> nat \<Rightarrow> nat \<Rightarrow> number" where
  "mock_loss env n e = Fin (exp (- real e / (real n / 5)) + random env e * 0.05)"

function mockTrain_loop :: "env \<Rightarrow> nat \<Rightarrow> nat \<Rightarrow> number list \<Rightarrow> app \<Rightarrow> app" where
  "mockTrain_loop env n e lossArr s =
     (if e < n then
        let loss = mock_loss env n e;
            lossArr' = lossArr @ [loss]
        in mockTrain_loop env n (Suc e) lossArr' (setLossHistory lossArr' s)
      else s)"
  by pat_completeness auto
termination
  by (relation "measure (\<lambda>(env, n, e, lossArr, s). n - e)") auto

declare mockTrain_loop.simps [simp del]

definition mockTrain :: "env \<Rightarrow> app \<Rightarrow> app" where
  "mockTrain env s =
     (let s1 = setLossHistory [] (s\<lparr>training := True\<rparr>);
          n = (if epochs (lstmParams s) = 0 then 10 else epochs (lstmParams s));
          s2 = mockTrain_loop env n 0 [] s1;
          mock = MockModel (now env)
      in alert ''Mock training complete (TF not required).''
           (s2\<lparr>model := Some mock, persistedModel := False, training := False\<rparr>))"

text \<open>
  \<^verbatim>\<open>
  const mockPredict = async (horizon = 5) => {
    if (!data.length) return;
    const last = data[data.length - 1].close;
    const preds = [];
    for (let i = 1; i <= horizon; i++) {
      const jitter = (Math.sin(i) + Math.random() * 0.5) * (last * 0.01);
      preds.push(last + jitter);
    }
    const lastDate = new Date(data[data.length - 1].date);
    const futureDates = Array.from({ length: horizon }, ...);
    setPredictions(futureDates.map((date, i) => ({ date, close: preds[i] })));
    alert('Mock predictions generated.');
  };
  \<close>
  The \<open>i\<close>-th pass of the loop makes the call number \<open>i - 1\<close> of \<open>Math.random()\<close>;
  \<open>mock_price env lastv i\<close> is the value it pushes.
\<close>

definition mock_price :: "env \<Rightarrow> number \<Rightarrow> nat \<Rightarrow> number" where
  "mock_price env lastv i =
     (let jitter = num_mul (Fin (sin (real i) + random env (i - 1) * 0.5))
                           (num_mul lastv (Fin 0.01))
      in num_add lastv jitter)"

function mockPredict_loop :: "env \<Rightarrow> number \<Rightarrow> nat \<Rightarrow> nat \<Rightarrow> number list \<Rightarrow> number list" where
  "mockPredict_loop env lastv horizon i preds =
     (if i \<le> horizon then
        mockPredict_loop env lastv horizon (Suc i) (preds @ [mock_price env lastv i])
      else preds)"
  by pat_completeness auto
termination
  by (relation "measure (\<lambda>(env, lastv, horizon, i, preds). Suc horizon - i)") auto

declare mockPredict_loop.simps [simp del]

definition mockPredict :: "env \<Rightarrow> nat \<Rightarrow> app \<Rightarrow> app" where
  "mockPredict env horizon s =
     (if data s = [] then s
      else
        let lastv = close (last (data s));
            preds = mockPredict_loop env lastv horizon 1 [];
            lastDate = new_Date (date (last (data s)));
            dates = futureDates env lastDate horizon
        in alert ''Mock predictions generated.'' (s\<lparr>predictions := pair_up dates preds\<rparr>))"

section \<open>Windowing\<close>

text \<open>
  \<^verbatim>\<open>
  const xs = [];
  const ys = [];
  for (let i = 0; i < norm.length - lookback; i++) {
    xs.push(norm.slice(i, i + lookback));
    ys.push(norm[i + lookback]);
  }
  \<close>
  \<open>slice(a, b)\<close> for \<open>0 \<le> a \<le> b\<close> is \<open>js_slice\<close>. The loop reads \<open>norm[i + lookback]\<close>
  only under its guard, where the index is in range.
\<close>

definition js_slice :: "'a list \<Rightarrow> nat \<Rightarrow> nat \<Rightarrow> 'a list" where
  "js_slice xs a b = take (b - a) (drop a xs)"

function build_windows_loop ::
  "number list \<Rightarrow> nat \<Rightarrow> nat \<Rightarrow> number list list \<Rightarrow> number list \<Rightarrow> number list list \<times> number list" where
  "build_windows_loop nrm lb i xs ys =
     (if int i < int (length nrm) - int lb then
        build_windows_loop nrm lb (Suc i)
          (xs @ [js_slice nrm i (i + lb)]) (ys @ [nrm ! (i + lb)])
      else (xs, ys))"
  by pat_completeness auto
termination
  by (relation "measure (\<lambda>(nrm, lb, i, xs, ys). length nrm - i)") auto

declare build_windows_loop.simps [simp del]

definition build_windows :: "number list \<Rightarrow> nat \<Rightarrow> number list list \<times> number list" where
  "build_windows nrm lb = build_windows_loop nrm lb 0 [] []"

section \<open>Live training\<close>

text \<open>
  The body of the \<open>try\<close> block of \<open>trainLSTM\<close> (its lines after the dispatch): load the
  library, normalize the closes, build the windows, throw when there is none, build and
  compile the model, fit it (each \<open>onEpochEnd\<close> pushes the loss and publishes the
  array), save it when IndexedDB is there (a failed save is only logged), and set the
  model.
  \<^verbatim>\<open>
  if (xs.length === 0) throw new Error('Not enough data for the chosen lookback.');
  ...
  if (indexedDBAvailable()) {
    try { await lstmModel.save('indexeddb://lstm-stock-model'); setPersistedModel(true); }
    catch (saveErr) { console.warn(...); }
  }
  setModel(lstmModel);
  alert('Training complete (real TF).');
  \<close>
\<close>

fun publish_losses :: "number list \<Rightarrow> number list \<Rightarrow> app \<Rightarrow> app" where
  "publish_losses lossArr [] s = s"
| "publish_losses lossArr (l # ls) s =
     publish_losses (lossArr @ [l]) ls (setLossHistory (lossArr @ [l]) s)"

definition save_model :: "env \<Rightarrow> tf_model \<Rightarrow> app \<Rightarrow> app" where
  "save_model env m s =
     (if idb_available env then
        (case tf_save env m of
           None \<Rightarrow> s\<lparr>idb_model := Some m, persistedModel := True\<rparr>
         | Some saveErr \<Rightarrow> s)
      else s)"

definition liveTrain_try :: "env \<Rightarrow> app \<Rightarrow> outcome" where
  "liveTrain_try env s =
     (case load_tf env of
        Some e \<Rightarrow> Throws e s
      | None \<Rightarrow>
          let closes = map close (data s);
              nz = normalize_v closes;
              lb = lookback (lstmParams s);
              (xs, ys) = build_windows (norm_v nz) lb
          in if length xs = 0 then
               Throws (Error ''Not enough data for the chosen lookback.'') s
             else
               (case tf_build env xs ys (lstmParams s) of
                  Some e \<Rightarrow> Throws e s
                | None \<Rightarrow>
                    let (losses, fitted) = tf_fit env xs ys (lstmParams s);
                        s2 = publish_losses [] losses s
                    in (case fitted of
                          Inl e \<Rightarrow> Throws e s2
                        | Inr lstmModel \<Rightarrow>
                            Returns (alert ''Training complete (real TF).''
                              ((save_model env lstmModel s2)\<lparr>model := Some (LayersModel lstmModel)\<rparr>)))))"

definition liveTrain :: "env \<Rightarrow> app \<Rightarrow> outcome" where
  "liveTrain env s =
     try_finally
       (try_catch (liveTrain_try env (setLossHistory [] (s\<lparr>training := True\<rparr>)))
          (\<lambda>err s'. Returns (alert (''Training failed: '' @ err_text err) s')))
       (\<lambda>s'. s'\<lparr>training := False\<rparr>)"

text \<open>
  \<^verbatim>\<open>
  const trainLSTM = async () => {
    if (!data.length) return alert('Fetch data first.');
    if (mockMode || !tfAvailable) {
      await mockTrain();
      return;
    }
    // Real TF training path
    ...
  \<close>
\<close>

definition trainLSTM :: "env \<Rightarrow> app \<Rightarrow> outcome" where
  "trainLSTM env s =
     (if data s = [] then Returns (alert ''Fetch data first.'' s)
      else if mockMode s \<or> \<not> tfAvailable s then Returns (mockTrain env s)
      else liveTrain env s)"

section \<open>Live prediction\<close>

text \<open>
  \<^verbatim>\<open>
  let inputSeq = norm.slice(-Number(lstmParams.lookback));
  const preds = [];
  for (let i = 0; i < horizon; i++) {
    const input = tf.tensor2d([inputSeq]).reshape([1, Number(lstmParams.lookback), 1]);
    const out = useModel.predict(input);
    const raw = await (Array.isArray(out) ? out[0].data() : out.data());
    const val = raw[0];
    preds.push(val);
    inputSeq = [...inputSeq.slice(1), val];
    ...
  }
  \<close>
  \<open>slice(-n)\<close> keeps the last \<open>n\<close> elements, all of them when there are fewer, and
  \<open>slice(-0)\<close> is \<open>slice(0)\<close>: the whole array. \<open>reshape\<close> throws unless the window has
  \<open>lookback\<close> elements. The marker object of mock training has no method \<open>predict\<close>.
\<close>

definition slice_last :: "'a list \<Rightarrow> nat \<Rightarrow> 'a list" where
  "slice_last xs n = (if n = 0 then xs else drop (length xs - n) xs)"

definition reshape_input :: "env \<Rightarrow> nat \<Rightarrow> number list \<Rightarrow> js_error option" where
  "reshape_input env lb inputSeq = (if length inputSeq = lb then None else Some (tf_shape_error env))"

fun model_predict :: "env \<Rightarrow> model_handle \<Rightarrow> number list \<Rightarrow> js_error + number" where
  "model_predict env (MockModel createdAt) inputSeq = Inl (type_error env)"
| "model_predict env (LayersModel m) inputSeq = tf_predict env m inputSeq"

function rollout ::
  "env \<Rightarrow> model_handle \<Rightarrow> nat \<Rightarrow> nat \<Rightarrow> nat \<Rightarrow> number list \<Rightarrow> number list \<Rightarrow> js_error + number list" where
  "rollout env useModel lb horizon i inputSeq preds =
     (if i < horizon then
        (case reshape_input env lb inputSeq of
           Some e \<Rightarrow> Inl e
         | None \<Rightarrow>
             (case model_predict env useModel inputSeq of
                Inl e \<Rightarrow> Inl e
              | Inr val \<Rightarrow>
                  rollout env useModel lb horizon (Suc i) (tl inputSeq @ [val]) (preds @ [val])))
      else Inr preds)"
  by pat_completeness auto
termination
  by (relation "measure (\<lambda>(env, useModel, lb, horizon, i, inputSeq, preds). horizon - i)") auto

declare rollout.simps [simp del]


text \<open>
  Lines 264 to 289 of the source, with the model to use at hand: normalize the closes,
  roll out, denormalize with the \<open>min\<close> and \<open>max\<close> of the closes, pair with the dates.
\<close>

definition live_forecast :: "env \<Rightarrow> nat \<Rightarrow> model_handle \<Rightarrow> app \<Rightarrow> outcome" where
  "live_forecast env horizon useModel s =
     (let closes = map close (data s);
          nz = normalize_v closes;
          lb = lookback (lstmParams s);
          inputSeq = slice_last (norm_v nz) lb
      in (case rollout env useModel lb horizon 0 inputSeq [] of
            Inl e \<Rightarrow> Throws e s
          | Inr preds \<Rightarrow>
              let denormPreds = denormalize preds (min_v nz) (max_v nz);
                  lastDate = new_Date (date (last (data s)));
                  dates = futureDates env lastDate horizon
              in Returns (s\<lparr>predictions := pair_up dates denormPreds\<rparr>)))"

text \<open>
  \<^verbatim>\<open>
  let useModel = model;
  if (!useModel) {
    if (indexedDBAvailable()) {
      try {
        useModel = await tf.loadLayersModel('indexeddb://lstm-stock-model');
        setModel(useModel);
        setPersistedModel(true);
      } catch (e) { console.warn(...); return; }
    } else {
      return;
    }
  }
  \<close>
\<close>

definition livePredict_try :: "env \<Rightarrow> nat \<Rightarrow> app \<Rightarrow> outcome" where
  "livePredict_try env horizon s =
     (case load_tf env of
        Some e \<Rightarrow> Throws e s
      | None \<Rightarrow>
          (case model s of
             Some useModel \<Rightarrow> live_forecast env horizon useModel s
           | None \<Rightarrow>
               if idb_available env then
                 (case tf_loadLayersModel env (idb_model s) of
                    Inr stored \<Rightarrow>
                      live_forecast env horizon (LayersModel stored)
                        (s\<lparr>model := Some (LayersModel stored), persistedModel := True\<rparr>)
                  | Inl e \<Rightarrow> Returns s)
               else Returns s))"

definition livePredict :: "env \<Rightarrow> nat \<Rightarrow> app \<Rightarrow> outcome" where
  "livePredict env horizon s =
     try_catch (livePredict_try env horizon s)
       (\<lambda>err s'. Returns (alert (''Prediction failed: '' @ err_text err) s'))"

text \<open>
  \<^verbatim>\<open>
  const predictLSTM = async (horizon = 5) => {
    if (!data.length) return;
    if (mockMode || !tfAvailable) {
      await mockPredict(horizon);
      return;
    }
    try { ... }
  \<close>
\<close>

definition predictLSTM :: "env \<Rightarrow> nat \<Rightarrow> app \<Rightarrow> outcome" where
  "predictLSTM env horizon s =
     (if data s = [] then Returns s
      else if mockMode s \<or> \<not> tfAvailable s then Returns (mockPredict env horizon s)
      else livePredict env horizon s)"

section \<open>Enabling the library, deleting the stored model\<close>

text \<open>
  \<^verbatim>\<open>
  const enableTensorFlow = async () => {
    try {
      const tf = await import('@tensorflow/tfjs');
      if (tf && tf.ready) await tf.ready();
      setTfAvailable(true);
      setMockMode(false);
      if (indexedDBAvailable()) {
        try {
          const stored = await tf.loadLayersModel('indexeddb://lstm-stock-model');
          setModel(stored);
          setPersistedModel(true);
        } catch (e) { console.warn('No persisted model found (or failed to load).'); }
      }
      alert('TensorFlow.js loaded. Mock mode disabled.');
    } catch (err) {
      console.error('Failed to load TensorFlow.js:', err);
      alert('Unable to load TensorFlow.js in this environment. Continuing in mock mode.');
      setTfAvailable(false);
      setMockMode(true);
    }
  };
  \<close>
\<close>

definition load_persisted :: "env \<Rightarrow> app \<Rightarrow> app" where
  "load_persisted env s =
     (if idb_available env then
        (case tf_loadLayersModel env (idb_model s) of
           Inr stored \<Rightarrow> s\<lparr>model := Some (LayersModel stored), persistedModel := True\<rparr>
         | Inl e \<Rightarrow> s)
      else s)"

definition enableTensorFlow_try :: "env \<Rightarrow> app \<Rightarrow> outcome" where
  "enableTensorFlow_try env s =
     (case load_tf env of
        Some e \<Rightarrow> Throws e s
      | None \<Rightarrow>
          Returns (alert ''TensorFlow.js loaded. Mock mode disabled.''
            (load_persisted env (s\<lparr>tfAvailable := True, mockMode := False\<rparr>))))"

definition enableTensorFlow :: "env \<Rightarrow> app \<Rightarrow> outcome" where
  "enableTensorFlow env s =
     try_catch (enableTensorFlow_try env s)
       (\<lambda>err s'. Returns
          ((alert ''Unable to load TensorFlow.js in this environment. Continuing in mock mode.'' s')
             \<lparr>tfAvailable := False, mockMode := True\<rparr>))"

text \<open>
  The other two places that turn mock mode off: the function \<open>disableMockMode\<close> and the
  checkbox of the settings drawer, which sets mock mode to its checked state.
  \<^verbatim>\<open>
  const disableMockMode = () => {
    setMockMode(false);
  };
  ...
  <input type="checkbox" id="mock" checked={mockMode}
         onChange={(e) => setMockMode(e.target.checked)} className="mr-2" />
  \<close>
\<close>

definition disableMockMode :: "app \<Rightarrow> app" where
  "disableMockMode s = s\<lparr>mockMode := False\<rparr>"

definition mock_checkbox :: "bool \<Rightarrow> app \<Rightarrow> app" where
  "mock_checkbox checked s = s\<lparr>mockMode := checked\<rparr>"

text \<open>
  \<^verbatim>\<open>
  const deletePersistedModel = async () => {
    if (!indexedDBAvailable()) return alert('IndexedDB not available in this environment.');
    if (mockMode) return alert('No persisted real model when in mock mode.');
    try {
      const tf = await import('@tensorflow/tfjs');
      if (tf && tf.ready) await tf.ready();
      await tf.io.removeModel('indexeddb://lstm-stock-model');
      setPersistedModel(false);
      setModel(null);
      alert('Persisted model deleted.');
    } catch (err) {
      console.error('Delete error:', err);
      alert('Failed to delete persisted model: ' + (err?.message || err));
    }
  };
  \<close>
\<close>

definition deletePersistedModel_try :: "env \<Rightarrow> app \<Rightarrow> outcome" where
  "deletePersistedModel_try env s =
     (case load_tf env of
        Some e \<Rightarrow> Throws e s
      | None \<Rightarrow>
          (case tf_removeModel env (idb_model s) of
             Some e \<Rightarrow> Throws e s
           | None \<Rightarrow>
               Returns (alert ''Persisted model deleted.''
                 (s\<lparr>idb_model := None, persistedModel := False, model := None\<rparr>))))"

definition deletePersistedModel :: "env \<Rightarrow> app \<Rightarrow> outcome" where
  "deletePersistedModel env s =
     (if \<not> idb_available env then
        Returns (alert ''IndexedDB not available in this environment.'' s)
      else if mockMode s then
        Returns (alert ''No persisted real model when in mock mode.'' s)
      else
        try_catch (deletePersistedModel_try env s)
          (\<lambda>err s'. Returns (alert (''Failed to delete persisted model: '' @ err_text err) s')))"

section \<open>Example inputs\<close>

text \<open>
  Concrete inputs for the examples: an environment where the library loads, IndexedDB is
  absent and local time is UTC, and the state the component starts in.
\<close>

definition env0 :: env where
  "env0 = \<lparr>idb_available = False, tf_import = None, tf_ready = None,
     tf_loadLayersModel = (\<lambda>stored. case stored of None \<Rightarrow> Inl (Error ''no model'') | Some m \<Rightarrow> Inr m),
     tf_removeModel = (\<lambda>stored. None),
     tf_build = (\<lambda>xs ys p. None),
     tf_fit = (\<lambda>xs ys p. ([], Inr 0)),
     tf_save = (\<lambda>m. None),
     tf_predict = (\<lambda>m w. Inr (Fin 0)),
     tf_shape_error = Error ''shape'',
     type_error = Error ''not a function'',
     random = (\<lambda>k. 0), now = 0, localTZA = (\<lambda>t isUTC. 0)\<rparr>"

definition s0 :: app where
  "s0 = \<lparr>data = [], predictions = [],
     lstmParams = \<lparr>lookback = 20, units = 50, epochs = 30, batchSize = 8, lr = 0.001\<rparr>,
     training = False, lossHistory = [], tfAvailable = False, model = None,
     persistedModel = False, mockMode = True, alerts = [], lossFrames = [], idb_model = None\<rparr>"

text \<open>
  A state with one price point, otherwise as the component starts; the same with mock
  mode off and the library loaded; an environment where the library fails to load.
\<close>

definition s1 :: app where
  "s1 = s0\<lparr>data := [\<lparr>date = 19790, close = Fin 5\<rparr>]\<rparr>"

definition s1_live :: app where
  "s1_live = s1\<lparr>mockMode := False, tfAvailable := True\<rparr>"

definition env_no_tf :: env where
  "env_no_tf = env0\<lparr>tf_import := Some (Error ''Failed to fetch dynamically imported module'')\<rparr>"

text \<open>
  A state with three price points and a lookback of 2, in live mode, holding a model that
  is also stored; environments where building the model fails and where fitting fails
  after one epoch.
\<close>

definition s3_live :: app where
  "s3_live = s0\<lparr>data := [\<lparr>date = 19788, close = Fin 1\<rparr>, \<lparr>date = 19789, close = Fin 2\<rparr>,
                          \<lparr>date = 19790, close = Fin 3\<rparr>],
               lstmParams := (lstmParams s0)\<lparr>lookback := 2\<rparr>,
               mockMode := False, tfAvailable := True,
               model := Some (LayersModel 7), persistedModel := True, idb_model := Some 7\<rparr>"

definition env_build_fails :: env where
  "env_build_fails = env0\<lparr>tf_build := (\<lambda>xs ys p. Some (Error ''build failed''))\<rparr>"

definition env_fit_fails :: env where
  "env_fit_fails = env0\<lparr>tf_fit := (\<lambda>xs ys p. ([Fin 1], Inl (Error ''fit failed'')))\<rparr>"

text \<open>
  A browser in the time zone of New York in March 2024: local time is UTC-5 until
  2024-03-10 07:00 UTC and UTC-4 from then on; a local time value is read as UTC-5 before
  03:00 of that day and as UTC-4 from then on (the hour from 02:00 is skipped). The state
  \<open>s1\<close> has the last date 2024-03-08, which is day 19790.
\<close>

definition env_new_york :: env where
  "env_new_york = env0\<lparr>localTZA := (\<lambda>t isUTC.
      if isUTC then (if t < 1710054000000 then - 18000000 else - 14400000)
      else (if t < 1710039600000 then - 18000000 else - 14400000))\<rparr>"



definition env_idb :: env where
  "env_idb = env0\<lparr>idb_available := True\<rparr>"

section \<open>Properties of the normalizer\<close>

lemma is_fin_iff: "is_fin v \<longleftrightarrow> (\<exists>r. v = Fin r)"
  by (cases v) auto

lemma min_from_fin: "is_fin lo \<Longrightarrow> list_all is_fin vs \<Longrightarrow> is_fin (min_from lo vs)"
  by (induction vs arbitrary: lo) (auto simp: is_fin_iff)

lemma max_from_fin: "is_fin hi \<Longrightarrow> list_all is_fin vs \<Longrightarrow> is_fin (max_from hi vs)"
  by (induction vs arbitrary: hi) (auto simp: is_fin_iff)

lemma Math_min_fin:
  assumes "xs \<noteq> []" and "list_all is_fin xs"
  shows "is_fin (Math_min xs)"
proof -
  obtain r vs where xs: "xs = Fin r # vs" and vs: "list_all is_fin vs"
    using assms by (cases xs) (auto simp: is_fin_iff)
  have "Math_min xs = min_from (Fin r) vs"
    by (simp add: Math_min_def xs)
  then show ?thesis using min_from_fin[OF _ vs, of "Fin r"] by simp
qed

lemma Math_max_fin:
  assumes "xs \<noteq> []" and "list_all is_fin xs"
  shows "is_fin (Math_max xs)"
proof -
  obtain r vs where xs: "xs = Fin r # vs" and vs: "list_all is_fin vs"
    using assms by (cases xs) (auto simp: is_fin_iff)
  have "Math_max xs = max_from (Fin r) vs"
    by (simp add: Math_max_def xs)
  then show ?thesis using max_from_fin[OF _ vs, of "Fin r"] by simp
qed

lemma range_of_not_zero: "range_of mn mx \<noteq> Fin 0"
  by (cases "num_sub mx mn") (auto simp: range_of_def js_or_def)

lemma range_of_fin: "range_of (Fin m) (Fin M) = Fin (if M - m = 0 then 1 else M - m)"
  by (simp add: range_of_def js_or_def num_sub_def)

lemma roundtrip_fin:
  "list_all is_fin xs \<Longrightarrow>
   denormalize (map (\<lambda>v. num_div (num_sub v (Fin m)) (range_of (Fin m) (Fin M))) xs) (Fin m) (Fin M) = xs"
  by (induction xs) (auto simp: denormalize_def range_of_fin num_sub_def is_fin_iff Let_def)

lemma min_from_const: "list_all (\<lambda>v. v = Fin c) vs \<Longrightarrow> min_from (Fin c) vs = Fin c"
  by (induction vs) auto

lemma max_from_const: "list_all (\<lambda>v. v = Fin c) vs \<Longrightarrow> max_from (Fin c) vs = Fin c"
  by (induction vs) auto

text \<open>
  Claim C1. For every non-empty sequence of finite numbers, denormalizing the normalized
  sequence with the \<open>min\<close> and \<open>max\<close> that \<open>normalize_v\<close> returned gives the
  sequence back (arithmetic being exact), the divisor \<open>max - min || 1\<close> is never zero,
  and it is 1 when all values of the sequence are equal.
\<close>

theorem normalize_roundtrip:
  assumes "xs \<noteq> []" and "list_all is_fin xs"
  shows "denormalize (norm_v (normalize_v xs)) (min_v (normalize_v xs)) (max_v (normalize_v xs)) = xs
       \<and> range_of (min_v (normalize_v xs)) (max_v (normalize_v xs)) \<noteq> Fin 0
       \<and> (list_all (\<lambda>v. v = hd xs) xs \<longrightarrow>
            range_of (min_v (normalize_v xs)) (max_v (normalize_v xs)) = Fin 1)"
proof -
  obtain m where m: "Math_min xs = Fin m"
    using Math_min_fin[OF assms] by (auto simp: is_fin_iff)
  obtain M where M: "Math_max xs = Fin M"
    using Math_max_fin[OF assms] by (auto simp: is_fin_iff)
  have rt: "denormalize (norm_v (normalize_v xs)) (min_v (normalize_v xs)) (max_v (normalize_v xs)) = xs"
    using roundtrip_fin[OF assms(2)] by (simp add: normalize_v_def m M Let_def)
  have deg: "range_of (min_v (normalize_v xs)) (max_v (normalize_v xs)) = Fin 1"
    if eq: "list_all (\<lambda>v. v = hd xs) xs"
  proof -
    obtain x vs where xs: "xs = x # vs" using assms(1) by (cases xs) auto
    obtain c where c: "x = Fin c" using assms(2) xs by (auto simp: is_fin_iff)
    have all: "list_all (\<lambda>v. v = Fin c) vs" using eq xs c by simp
    have "Math_min xs = Fin c" "Math_max xs = Fin c"
      using min_from_const[OF all] max_from_const[OF all]
      by (simp_all add: Math_min_def Math_max_def xs c)
    then show ?thesis by (simp add: normalize_v_def Let_def range_of_fin)
  qed
  show ?thesis using rt deg range_of_not_zero by blast
qed

theorem normalize_roundtrip_witness:
  "[Fin 3, Fin 1, Fin 2] \<noteq> [] \<and> list_all is_fin [Fin 3, Fin 1, Fin 2]
   \<and> normalize_v [Fin 3, Fin 1, Fin 2] = \<lparr>norm_v = [Fin 1, Fin 0, Fin (1/2)], min_v = Fin 1, max_v = Fin 3\<rparr>
   \<and> denormalize [Fin 1, Fin 0, Fin (1/2)] (Fin 1) (Fin 3) = [Fin 3, Fin 1, Fin 2]"
  using normalize_roundtrip[of "[Fin 3, Fin 1, Fin 2]"]
  by (simp add: normalize_v_def denormalize_def Let_def Math_min_def Math_max_def range_of_fin
      num_sub_def)

section \<open>Properties of the windowing\<close>

lemma build_windows_loop_eq:
  "build_windows_loop nrm lb i xs ys =
     (xs @ map (\<lambda>j. js_slice nrm j (j + lb)) [i..<length nrm - lb],
      ys @ map (\<lambda>j. nrm ! (j + lb)) [i..<length nrm - lb])"
proof (induction nrm lb i xs ys rule: build_windows_loop.induct)
  case (1 nrm lb i xs ys)
  show ?case
  proof (cases "int i < int (length nrm) - int lb")
    case True
    then have lt: "i < length nrm - lb" by linarith
    have "[i..<length nrm - lb] = i # [Suc i..<length nrm - lb]"
      using lt by (simp add: upt_conv_Cons)
    then show ?thesis
      using True "1.IH" by (subst build_windows_loop.simps) simp
  next
    case False
    then have "length nrm - lb \<le> i" by linarith
    then show ?thesis
      using False by (subst build_windows_loop.simps) simp
  qed
qed

lemma build_windows_eq:
  "build_windows nrm lb =
     (map (\<lambda>j. js_slice nrm j (j + lb)) [0..<length nrm - lb],
      map (\<lambda>j. nrm ! (j + lb)) [0..<length nrm - lb])"
  by (simp add: build_windows_def build_windows_loop_eq)

lemma js_slice_window:
  "i + lb < length nrm \<Longrightarrow> length (js_slice nrm i (i + lb)) = lb"
  "i + lb < length nrm \<Longrightarrow> k < lb \<Longrightarrow> js_slice nrm i (i + lb) ! k = nrm ! (i + k)"
  by (simp_all add: js_slice_def)

lemma length_norm_v: "length (norm_v (normalize_v arr)) = length arr"
  by (simp add: normalize_v_def Let_def)


lemma liveTrain_try_insufficient:
  assumes "load_tf env = None" and "length (data s) \<le> lookback (lstmParams s)"
  shows "liveTrain_try env s = Throws (Error ''Not enough data for the chosen lookback.'') s"
proof -
  have "length (norm_v (normalize_v (map close (data s)))) - lookback (lstmParams s) = 0"
    using assms(2) by (simp add: length_norm_v)
  then show ?thesis
    using assms(1) by (simp add: liveTrain_try_def Let_def build_windows_eq)
qed

text \<open>
  Claim C2. For a normalized series of length \<open>N\<close> and a lookback \<open>L\<close>, the windowing
  loop builds exactly \<open>max(0, N - L)\<close> windows, window \<open>i\<close> holding the \<open>L\<close> values
  \<open>norm[i .. i+L)\<close> with the target \<open>norm[i + L]\<close>; it builds none when \<open>N \<le> L\<close>, and
  live training then ends with the message that there is not enough data, the model, the
  stored model and the persisted flag as they were.
\<close>

theorem windowing_insufficient_data:
  "int (length (fst (build_windows nrm lb))) = max 0 (int (length nrm) - int lb)
   \<and> length (snd (build_windows nrm lb)) = length (fst (build_windows nrm lb))
   \<and> (\<forall>i < length (fst (build_windows nrm lb)).
          fst (build_windows nrm lb) ! i = js_slice nrm i (i + lb)
        \<and> length (fst (build_windows nrm lb) ! i) = lb
        \<and> (\<forall>k < lb. fst (build_windows nrm lb) ! i ! k = nrm ! (i + k))
        \<and> snd (build_windows nrm lb) ! i = nrm ! (i + lb))
   \<and> (length nrm \<le> lb \<longrightarrow> fst (build_windows nrm lb) = [])
   \<and> (data s \<noteq> [] \<and> \<not> mockMode s \<and> tfAvailable s \<and> load_tf env = None
        \<and> length (data s) \<le> lookback (lstmParams s) \<longrightarrow>
        (\<exists>s'. trainLSTM env s = Returns s'
           \<and> alerts s' = alerts s @ [''Training failed: Not enough data for the chosen lookback.'']
           \<and> model s' = model s \<and> persistedModel s' = persistedModel s
           \<and> idb_model s' = idb_model s \<and> \<not> training s'))"
proof -
  have len: "int (length (fst (build_windows nrm lb))) = max 0 (int (length nrm) - int lb)"
    by (simp add: build_windows_eq)
  have len2: "length (snd (build_windows nrm lb)) = length (fst (build_windows nrm lb))"
    by (simp add: build_windows_eq)
  have win: "fst (build_windows nrm lb) ! i = js_slice nrm i (i + lb)
        \<and> length (fst (build_windows nrm lb) ! i) = lb
        \<and> (\<forall>k < lb. fst (build_windows nrm lb) ! i ! k = nrm ! (i + k))
        \<and> snd (build_windows nrm lb) ! i = nrm ! (i + lb)"
    if "i < length (fst (build_windows nrm lb))" for i
  proof -
    from that have i: "i < length nrm - lb" by (simp add: build_windows_eq)
    then have "i + lb < length nrm" by linarith
    then show ?thesis using i by (simp add: build_windows_eq js_slice_window)
  qed
  have none: "fst (build_windows nrm lb) = []" if "length nrm \<le> lb"
    using that by (simp add: build_windows_eq)
  have train: "\<exists>s'. trainLSTM env s = Returns s'
           \<and> alerts s' = alerts s @ [''Training failed: Not enough data for the chosen lookback.'']
           \<and> model s' = model s \<and> persistedModel s' = persistedModel s
           \<and> idb_model s' = idb_model s \<and> \<not> training s'"
    if h: "data s \<noteq> [] \<and> \<not> mockMode s \<and> tfAvailable s \<and> load_tf env = None
        \<and> length (data s) \<le> lookback (lstmParams s)"
  proof -
    let ?s1 = "setLossHistory [] (s\<lparr>training := True\<rparr>)"
    have "liveTrain_try env ?s1 = Throws (Error ''Not enough data for the chosen lookback.'') ?s1"
      using h by (intro liveTrain_try_insufficient) (simp_all add: setLossHistory_def)
    then show ?thesis
      using h by (simp add: trainLSTM_def liveTrain_def try_catch_def try_finally_def
          alert_def setLossHistory_def)
  qed
  show ?thesis using len len2 win none train by blast
qed


theorem windowing_insufficient_data_witness:
  "build_windows [Fin 0, Fin (1/2), Fin 1] 2 = ([[Fin 0, Fin (1/2)]], [Fin 1])
   \<and> (\<exists>s'. trainLSTM env0 (s0\<lparr>data := [\<lparr>date = 19790, close = Fin 5\<rparr>], mockMode := False, tfAvailable := True\<rparr>) = Returns s'
       \<and> alerts s' = [''Training failed: Not enough data for the chosen lookback.''])"
  using windowing_insufficient_data[of "[Fin 0, Fin (1/2), Fin 1]" 2
      "s0\<lparr>data := [\<lparr>date = 19790, close = Fin 5\<rparr>], mockMode := False, tfAvailable := True\<rparr>" env0]
  by (auto simp: build_windows_eq js_slice_def env0_def s0_def load_tf_def)

section \<open>Properties of mock training\<close>

lemma mockTrain_loop_step:
  "e < n \<Longrightarrow> mockTrain_loop env n e lossArr s =
     mockTrain_loop env n (Suc e) (lossArr @ [mock_loss env n e])
       (setLossHistory (lossArr @ [mock_loss env n e]) s)"
  by (subst mockTrain_loop.simps) (simp add: Let_def)

lemma mockTrain_loop_stop:
  "\<not> e < n \<Longrightarrow> mockTrain_loop env n e lossArr s = s"
  by (subst mockTrain_loop.simps) simp

lemma mockTrain_loop_frame:
  "mockTrain_loop env n e lossArr s =
     s\<lparr>lossHistory := lossHistory (mockTrain_loop env n e lossArr s),
       lossFrames := lossFrames (mockTrain_loop env n e lossArr s)\<rparr>"
proof (induction env n e lossArr s rule: mockTrain_loop.induct)
  case (1 env n e lossArr s)
  show ?case
  proof (cases "e < n")
    case True
    show ?thesis
      unfolding mockTrain_loop_step[OF True] using "1.IH"[OF True refl refl]
      by (simp add: setLossHistory_def)
  next
    case False
    then show ?thesis by (simp add: mockTrain_loop_stop)
  qed
qed

lemma mockTrain_loop_lossHistory:
  "lossHistory (mockTrain_loop env n e lossArr s) =
     (if e < n then lossArr @ map (mock_loss env n) [e..<n] else lossHistory s)"
proof (induction env n e lossArr s rule: mockTrain_loop.induct)
  case (1 env n e lossArr s)
  show ?case
  proof (cases "e < n")
    case True
    have "[e..<n] = e # [Suc e..<n]" using True by (simp add: upt_conv_Cons)
    moreover have "\<not> Suc e < n \<Longrightarrow> [Suc e..<n] = []" by simp
    ultimately show ?thesis
      unfolding mockTrain_loop_step[OF True] using "1.IH"[OF True refl refl] True
      by (simp add: setLossHistory_def)
  next
    case False
    then show ?thesis by (simp add: mockTrain_loop_stop)
  qed
qed

lemma mockTrain_loop_lossFrames:
  "lossFrames (mockTrain_loop env n e lossArr s) =
     lossFrames s @ map (\<lambda>k. lossArr @ map (mock_loss env n) [e..<k]) [Suc e..<Suc n]"
proof (induction env n e lossArr s rule: mockTrain_loop.induct)
  case (1 env n e lossArr s)
  show ?case
  proof (cases "e < n")
    case True
    let ?l = "lossArr @ [mock_loss env n e]"
    have split: "[Suc e..<Suc n] = Suc e # [Suc (Suc e)..<Suc n]"
      using True by (simp add: upt_conv_Cons del: upt_Suc)
    have tail: "map (\<lambda>k. ?l @ map (mock_loss env n) [Suc e..<k]) [Suc (Suc e)..<Suc n]
              = map (\<lambda>k. lossArr @ map (mock_loss env n) [e..<k]) [Suc (Suc e)..<Suc n]"
      by (rule map_cong) (auto simp: upt_conv_Cons simp del: upt_Suc)
    have "lossFrames (mockTrain_loop env n e lossArr s) =
            lossFrames (setLossHistory ?l s)
              @ map (\<lambda>k. ?l @ map (mock_loss env n) [Suc e..<k]) [Suc (Suc e)..<Suc n]"
      unfolding mockTrain_loop_step[OF True] using "1.IH"[OF True refl refl] by simp
    also have "\<dots> = lossFrames s
              @ (?l # map (\<lambda>k. lossArr @ map (mock_loss env n) [e..<k]) [Suc (Suc e)..<Suc n])"
      unfolding tail by (simp add: setLossHistory_def del: upt_Suc)
    also have "?l = lossArr @ map (mock_loss env n) [e..<Suc e]" by simp
    finally show ?thesis unfolding split by (simp del: upt_Suc)
  next
    case False
    then show ?thesis by (simp add: mockTrain_loop_stop)
  qed
qed


lemma mockTrain_lossHistory:
  "lossHistory (mockTrain env s) =
     map (mock_loss env (if epochs (lstmParams s) = 0 then 10 else epochs (lstmParams s)))
       [0..<(if epochs (lstmParams s) = 0 then 10 else epochs (lstmParams s))]"
  by (simp add: mockTrain_def Let_def alert_def mockTrain_loop_lossHistory)

lemma mockTrain_lossFrames:
  "lossFrames (mockTrain env s) =
     lossFrames s @
       map (\<lambda>k. map (mock_loss env (if epochs (lstmParams s) = 0 then 10 else epochs (lstmParams s)))
                  [0..<k])
         [0..<Suc (if epochs (lstmParams s) = 0 then 10 else epochs (lstmParams s))]"
proof -
  have "[0..<Suc n] = 0 # [Suc 0..<Suc n]" for n
    by (simp add: upt_conv_Cons del: upt_Suc)
  then show ?thesis
    by (simp add: mockTrain_def Let_def alert_def mockTrain_loop_lossFrames setLossHistory_def
        del: upt_Suc)
qed

lemma mockTrain_rest:
  "model (mockTrain env s) = Some (MockModel (now env))"
  "persistedModel (mockTrain env s) = False"
  "training (mockTrain env s) = False"
  "idb_model (mockTrain env s) = idb_model s"
  "alerts (mockTrain env s) = alerts s @ [''Mock training complete (TF not required).'']"
  "data (mockTrain env s) = data s"
  "predictions (mockTrain env s) = predictions s"
  "mockMode (mockTrain env s) = mockMode s"
  "tfAvailable (mockTrain env s) = tfAvailable s"
  unfolding mockTrain_def Let_def alert_def
  by (subst mockTrain_loop_frame, simp add: setLossHistory_def)+

text \<open>
  Claim C7. For an epoch count \<open>E \<ge> 1\<close> and \<open>Math.random()\<close> in \<open>[0, 1)\<close>, mock training
  ends with a loss trace of exactly \<open>E\<close> entries, entry \<open>e\<close> being
  \<open>exp(-e / (E / 5))\<close> plus a random term in \<open>[0, 0.05)\<close>; the traces it publishes during
  the run are the prefixes of the final one, of lengths \<open>0, 1, ..., E\<close> in this order.
\<close>

theorem mockTrain_loss_trace:
  assumes "epochs (lstmParams s) = E" and "1 \<le> E"
    and "\<forall>k. 0 \<le> random env k \<and> random env k < 1"
  shows "length (lossHistory (mockTrain env s)) = E
       \<and> (\<forall>e<E. lossHistory (mockTrain env s) ! e
                   = Fin (exp (- real e / (real E / 5)) + random env e * 0.05)
                \<and> 0 \<le> random env e * 0.05 \<and> random env e * 0.05 < 0.05)
       \<and> lossFrames (mockTrain env s)
            = lossFrames s @ map (\<lambda>k. take k (lossHistory (mockTrain env s))) [0..<Suc E]
       \<and> map length (drop (length (lossFrames s)) (lossFrames (mockTrain env s))) = [0..<Suc E]"
proof -
  have n: "(if epochs (lstmParams s) = 0 then 10 else epochs (lstmParams s)) = E"
    using assms(1,2) by simp
  have hist: "lossHistory (mockTrain env s) = map (mock_loss env E) [0..<E]"
    using mockTrain_lossHistory[of env s] unfolding n .
  have frames: "lossFrames (mockTrain env s)
                  = lossFrames s @ map (\<lambda>k. map (mock_loss env E) [0..<k]) [0..<Suc E]"
    using mockTrain_lossFrames[of env s] unfolding n .
  have prefixes: "map (\<lambda>k. map (mock_loss env E) [0..<k]) [0..<Suc E]
                = map (\<lambda>k. take k (map (mock_loss env E) [0..<E])) [0..<Suc E]"
    by (rule map_cong) (auto simp: take_map simp del: upt_Suc)
  have lens: "map length (map (\<lambda>k. map (mock_loss env E) [0..<k]) [0..<Suc E]) = [0..<Suc E]"
    by (simp add: comp_def map_idI del: upt_Suc)
  have entry: "lossHistory (mockTrain env s) ! e
                   = Fin (exp (- real e / (real E / 5)) + random env e * 0.05)
                \<and> 0 \<le> random env e * 0.05 \<and> random env e * 0.05 < 0.05" if "e < E" for e
    using that assms(3) by (simp add: hist mock_loss_def)
  have c1: "length (lossHistory (mockTrain env s)) = E"
    by (simp add: hist)
  have c3: "lossFrames (mockTrain env s)
            = lossFrames s @ map (\<lambda>k. take k (lossHistory (mockTrain env s))) [0..<Suc E]"
    unfolding frames prefixes hist ..
  have c4: "map length (drop (length (lossFrames s)) (lossFrames (mockTrain env s))) = [0..<Suc E]"
    unfolding frames using lens by simp
  show ?thesis
    using c1 entry c3 c4 by blast
qed

theorem mockTrain_loss_trace_witness:
  "epochs (lstmParams (s0\<lparr>lstmParams := (lstmParams s0)\<lparr>epochs := 2\<rparr>\<rparr>)) = 2 \<and> (1::nat) \<le> 2
   \<and> (\<forall>k. 0 \<le> random env0 k \<and> random env0 k < 1)
   \<and> lossHistory (mockTrain env0 (s0\<lparr>lstmParams := (lstmParams s0)\<lparr>epochs := 2\<rparr>\<rparr>))
        = [Fin 1, Fin (exp (- 5 / 2))]
   \<and> lossFrames (mockTrain env0 (s0\<lparr>lstmParams := (lstmParams s0)\<lparr>epochs := 2\<rparr>\<rparr>))
        = [[], [Fin 1], [Fin 1, Fin (exp (- 5 / 2))]]"
  using mockTrain_loss_trace[of "s0\<lparr>lstmParams := (lstmParams s0)\<lparr>epochs := 2\<rparr>\<rparr>" 2 env0]
  by (simp add: s0_def env0_def mockTrain_lossHistory mockTrain_lossFrames mock_loss_def
      upt_conv_Cons del: upt_Suc)

text \<open>
  Claim C10. Every run of mock training ends with the model variable holding the mock
  marker stamped with the current time and with the persisted flag false, whatever was
  held before, and leaves the entry in the store as it was: a model stored before is
  still stored while the flag says there is none.
\<close>

theorem mockTrain_replaces_model:
  "model (mockTrain env s) = Some (MockModel (now env))
   \<and> persistedModel (mockTrain env s) = False
   \<and> idb_model (mockTrain env s) = idb_model s"
  by (simp add: mockTrain_rest)

section \<open>Properties of the mode selector\<close>

text \<open>
  Claim C4, amended. With at least one price point loaded, training and prediction run
  the mock implementation when mock mode is on or the library is not loaded, and the
  live implementation otherwise. With no price point loaded neither runs: training only
  shows \<open>Fetch data first.\<close> and prediction returns at once.
\<close>

theorem dispatch_on_mode:
  "(data s \<noteq> [] \<longrightarrow>
      trainLSTM env s = (if mockMode s \<or> \<not> tfAvailable s then Returns (mockTrain env s)
                         else liveTrain env s)
    \<and> predictLSTM env horizon s = (if mockMode s \<or> \<not> tfAvailable s
                                    then Returns (mockPredict env horizon s)
                                    else livePredict env horizon s))
   \<and> (data s = [] \<longrightarrow>
      trainLSTM env s = Returns (alert ''Fetch data first.'' s)
    \<and> predictLSTM env horizon s = Returns s)"
  by (simp add: trainLSTM_def predictLSTM_def)

theorem dispatch_on_mode_witness:
  "data s1 \<noteq> [] \<and> trainLSTM env0 s1 = Returns (mockTrain env0 s1)
   \<and> predictLSTM env0 5 s1 = Returns (mockPredict env0 5 s1)
   \<and> data s1_live \<noteq> [] \<and> trainLSTM env0 s1_live = liveTrain env0 s1_live
   \<and> predictLSTM env0 5 s1_live = livePredict env0 5 s1_live
   \<and> data s0 = [] \<and> trainLSTM env0 s0 = Returns (alert ''Fetch data first.'' s0)
   \<and> predictLSTM env0 5 s0 = Returns s0"
  using dispatch_on_mode[of s1 env0 5] dispatch_on_mode[of s1_live env0 5]
    dispatch_on_mode[of s0 env0 5]
  by (simp add: s1_def s1_live_def s0_def)

text \<open>
  The claim as stated fails in the state the component starts in: mock mode is on, and
  training does not run the mock implementation, since no data is loaded.
\<close>

theorem dispatch_on_mode_counterexample:
  "mockMode s0 \<and> trainLSTM env0 s0 \<noteq> Returns (mockTrain env0 s0)"
proof -
  have "alerts (final (trainLSTM env0 s0)) = [''Fetch data first.'']"
    by (simp add: trainLSTM_def s0_def alert_def)
  moreover have "alerts (final (Returns (mockTrain env0 s0)))
                   = [''Mock training complete (TF not required).'']"
    by (simp add: mockTrain_rest) (simp add: s0_def)
  ultimately have "trainLSTM env0 s0 \<noteq> Returns (mockTrain env0 s0)"
    by auto
  then show ?thesis by (simp add: s0_def)
qed

section \<open>Properties of enabling the library\<close>

lemma load_tf_fails_iff:
  "load_tf env \<noteq> None \<longleftrightarrow> tf_import env \<noteq> None \<or> tf_ready env \<noteq> None"
  by (auto simp: load_tf_def split: option.splits)

lemma load_persisted_frame:
  "mockMode (load_persisted env s) = mockMode s"
  "tfAvailable (load_persisted env s) = tfAvailable s"
  "alerts (load_persisted env s) = alerts s"
  "idb_model (load_persisted env s) = idb_model s"
  by (simp_all add: load_persisted_def split: sum.splits)

lemma enableTensorFlow_action:
  "thrown (enableTensorFlow env s) = None
   \<and> (tf_import env \<noteq> None \<or> tf_ready env \<noteq> None \<longrightarrow>
        mockMode (final (enableTensorFlow env s))
      \<and> \<not> tfAvailable (final (enableTensorFlow env s))
      \<and> alerts (final (enableTensorFlow env s)) = alerts s @
          [''Unable to load TensorFlow.js in this environment. Continuing in mock mode.'']
      \<and> model (final (enableTensorFlow env s)) = model s
      \<and> persistedModel (final (enableTensorFlow env s)) = persistedModel s
      \<and> idb_model (final (enableTensorFlow env s)) = idb_model s)
   \<and> (\<not> mockMode (final (enableTensorFlow env s)) \<longrightarrow>
        tf_import env = None \<and> tf_ready env = None
      \<and> tfAvailable (final (enableTensorFlow env s)))
   \<and> (tf_import env = None \<and> tf_ready env = None \<longrightarrow>
        \<not> mockMode (final (enableTensorFlow env s))
      \<and> tfAvailable (final (enableTensorFlow env s)))"
proof (cases "load_tf env")
  case None
  then have ok: "tf_import env = None \<and> tf_ready env = None"
    using load_tf_fails_iff[of env] by simp
  show ?thesis
    using None ok
    by (simp add: enableTensorFlow_def enableTensorFlow_try_def try_catch_def alert_def
        load_persisted_frame)
next
  case (Some e)
  then have bad: "tf_import env \<noteq> None \<or> tf_ready env \<noteq> None"
    using load_tf_fails_iff[of env] by simp
  show ?thesis
    using Some bad
    by (auto simp: enableTensorFlow_def enableTensorFlow_try_def try_catch_def alert_def)
qed

text \<open>
  Claim C5, amended. \<open>enableTensorFlow\<close> never lets a thrown value out. When loading the
  library fails (the import or \<open>tf.ready()\<close> throws), it ends with mock mode on and the
  library flag off, shows the message that it continues in mock mode, and leaves the
  model, the persisted flag and the store as they were. The action itself ends with mock
  mode off only when loading succeeded, and then the library flag is on. Mock mode is
  also turned off, with no loading of the library, by the checkbox of the settings drawer
  and by \<open>disableMockMode\<close>; both leave the library flag as it was.
\<close>

theorem enableTensorFlow_failure:
  "thrown (enableTensorFlow env s) = None
   \<and> (tf_import env \<noteq> None \<or> tf_ready env \<noteq> None \<longrightarrow>
        mockMode (final (enableTensorFlow env s))
      \<and> \<not> tfAvailable (final (enableTensorFlow env s))
      \<and> alerts (final (enableTensorFlow env s)) = alerts s @
          [''Unable to load TensorFlow.js in this environment. Continuing in mock mode.'']
      \<and> model (final (enableTensorFlow env s)) = model s
      \<and> persistedModel (final (enableTensorFlow env s)) = persistedModel s
      \<and> idb_model (final (enableTensorFlow env s)) = idb_model s)
   \<and> (\<not> mockMode (final (enableTensorFlow env s)) \<longrightarrow>
        tf_import env = None \<and> tf_ready env = None
      \<and> tfAvailable (final (enableTensorFlow env s)))
   \<and> (tf_import env = None \<and> tf_ready env = None \<longrightarrow>
        \<not> mockMode (final (enableTensorFlow env s))
      \<and> tfAvailable (final (enableTensorFlow env s)))
   \<and> mockMode (mock_checkbox checked s) = checked
   \<and> tfAvailable (mock_checkbox checked s) = tfAvailable s
   \<and> \<not> mockMode (disableMockMode s)
   \<and> tfAvailable (disableMockMode s) = tfAvailable s"
proof -
  have toggles: "mockMode (mock_checkbox checked s) = checked
      \<and> tfAvailable (mock_checkbox checked s) = tfAvailable s
      \<and> \<not> mockMode (disableMockMode s)
      \<and> tfAvailable (disableMockMode s) = tfAvailable s"
    by (simp add: mock_checkbox_def disableMockMode_def)
  show ?thesis
    using enableTensorFlow_action[of env s] toggles by blast
qed

theorem enableTensorFlow_failure_witness:
  "tf_import env_no_tf \<noteq> None
   \<and> enableTensorFlow env_no_tf s1_live = Returns (s1\<lparr>alerts :=
        [''Unable to load TensorFlow.js in this environment. Continuing in mock mode.'']\<rparr>)
   \<and> tf_import env0 = None \<and> tf_ready env0 = None
   \<and> \<not> mockMode (final (enableTensorFlow env0 s1))
   \<and> tfAvailable (final (enableTensorFlow env0 s1))
   \<and> mock_checkbox False s1 = s1\<lparr>mockMode := False\<rparr>"
  using enableTensorFlow_failure[of env_no_tf s1_live] enableTensorFlow_failure[of env0 s1]
  by (simp add: env_no_tf_def env0_def s1_live_def s1_def s0_def enableTensorFlow_def
      enableTensorFlow_try_def try_catch_def alert_def load_tf_def mock_checkbox_def)

text \<open>
  The claim as stated fails in the state the component starts in: unchecking the checkbox
  (or calling \<open>disableMockMode\<close>) takes the mode from mock to live although the library
  was never loaded, and \<open>deletePersistedModel\<close>, which tests mock mode alone, then goes
  past its mock-mode guard.
\<close>

theorem enableTensorFlow_failure_counterexample:
  "mockMode s0 \<and> \<not> tfAvailable s0
   \<and> \<not> mockMode (mock_checkbox False s0) \<and> \<not> tfAvailable (mock_checkbox False s0)
   \<and> \<not> mockMode (disableMockMode s0)
   \<and> alerts (final (deletePersistedModel env_idb s0))
        = [''No persisted real model when in mock mode.'']
   \<and> alerts (final (deletePersistedModel env_idb (mock_checkbox False s0)))
        = [''Persisted model deleted.'']"
  by (simp add: s0_def mock_checkbox_def disableMockMode_def env_idb_def env0_def
      deletePersistedModel_def deletePersistedModel_try_def try_catch_def load_tf_def alert_def)

section \<open>Properties of live training\<close>

lemma publish_losses_frame:
  "model (publish_losses lossArr ls s) = model s"
  "persistedModel (publish_losses lossArr ls s) = persistedModel s"
  "idb_model (publish_losses lossArr ls s) = idb_model s"
  "alerts (publish_losses lossArr ls s) = alerts s"
  "training (publish_losses lossArr ls s) = training s"
  by (induction lossArr ls s rule: publish_losses.induct) (simp_all add: setLossHistory_def)

lemma liveTrain_try_throws_frame:
  assumes "liveTrain_try env s = Throws e s'"
  shows "model s' = model s \<and> persistedModel s' = persistedModel s
       \<and> idb_model s' = idb_model s \<and> alerts s' = alerts s"
  using assms
  by (auto simp: liveTrain_try_def Let_def publish_losses_frame
      split: option.splits prod.splits if_splits sum.splits)

lemma liveTrain_caught:
  assumes "liveTrain_try env (setLossHistory [] (s\<lparr>training := True\<rparr>)) = Throws e s'"
  shows "liveTrain env s = Returns ((alert (''Training failed: '' @ err_text e) s')\<lparr>training := False\<rparr>)"
  using assms by (simp add: liveTrain_def try_catch_def try_finally_def)

lemma liveTrain_never_throws: "thrown (liveTrain env s) = None"
  by (simp add: liveTrain_def try_catch_def try_finally_def split: outcome.splits)

text \<open>
  Claim C6. Nothing thrown leaves live training. Whatever is thrown in its \<open>try\<close> block
  is reported as \<open>Training failed:\<close> followed by the error's text, and the model, the
  persisted flag and the store are as before the run. The block throws the error
  \<open>Not enough data for the chosen lookback.\<close> when the series is no longer than the
  lookback, and the library's error when building the model or fitting it fails.
\<close>

theorem liveTrain_failure:
  "thrown (liveTrain env s) = None
   \<and> (\<forall>e s'. liveTrain_try env (setLossHistory [] (s\<lparr>training := True\<rparr>)) = Throws e s' \<longrightarrow>
        alerts (final (liveTrain env s)) = alerts s @ [''Training failed: '' @ err_text e]
      \<and> model (final (liveTrain env s)) = model s
      \<and> persistedModel (final (liveTrain env s)) = persistedModel s
      \<and> idb_model (final (liveTrain env s)) = idb_model s
      \<and> \<not> training (final (liveTrain env s)))
   \<and> (\<forall>e. load_tf env = Some e \<longrightarrow>
        thrown (liveTrain_try env (setLossHistory [] (s\<lparr>training := True\<rparr>))) = Some e)
   \<and> (load_tf env = None \<and> length (data s) \<le> lookback (lstmParams s) \<longrightarrow>
        thrown (liveTrain_try env (setLossHistory [] (s\<lparr>training := True\<rparr>)))
          = Some (Error ''Not enough data for the chosen lookback.'')
      \<and> alerts (final (liveTrain env s))
          = alerts s @ [''Training failed: Not enough data for the chosen lookback.''])
   \<and> (\<forall>e xs ys. load_tf env = None
        \<and> build_windows (norm_v (normalize_v (map close (data s)))) (lookback (lstmParams s)) = (xs, ys)
        \<and> xs \<noteq> [] \<and> tf_build env xs ys (lstmParams s) = Some e \<longrightarrow>
        thrown (liveTrain_try env (setLossHistory [] (s\<lparr>training := True\<rparr>))) = Some e)
   \<and> (\<forall>e xs ys. load_tf env = None
        \<and> build_windows (norm_v (normalize_v (map close (data s)))) (lookback (lstmParams s)) = (xs, ys)
        \<and> xs \<noteq> [] \<and> tf_build env xs ys (lstmParams s) = None
        \<and> snd (tf_fit env xs ys (lstmParams s)) = Inl e \<longrightarrow>
        thrown (liveTrain_try env (setLossHistory [] (s\<lparr>training := True\<rparr>))) = Some e)"
proof -
  let ?s1 = "setLossHistory [] (s\<lparr>training := True\<rparr>)"
  have s1: "data ?s1 = data s" "lstmParams ?s1 = lstmParams s" "model ?s1 = model s"
    "persistedModel ?s1 = persistedModel s" "idb_model ?s1 = idb_model s" "alerts ?s1 = alerts s"
    by (simp_all add: setLossHistory_def)
  have caught: "alerts (final (liveTrain env s)) = alerts s @ [''Training failed: '' @ err_text e]
      \<and> model (final (liveTrain env s)) = model s
      \<and> persistedModel (final (liveTrain env s)) = persistedModel s
      \<and> idb_model (final (liveTrain env s)) = idb_model s
      \<and> \<not> training (final (liveTrain env s))"
    if t: "liveTrain_try env ?s1 = Throws e s'" for e s'
    using liveTrain_try_throws_frame[OF t] liveTrain_caught[OF t]
    by (simp add: s1 alert_def)
  have load: "thrown (liveTrain_try env ?s1) = Some e" if "load_tf env = Some e" for e
    using that by (simp add: liveTrain_try_def)
  have insufficient: "thrown (liveTrain_try env ?s1) = Some (Error ''Not enough data for the chosen lookback.'')
      \<and> alerts (final (liveTrain env s))
          = alerts s @ [''Training failed: Not enough data for the chosen lookback.'']"
    if h: "load_tf env = None \<and> length (data s) \<le> lookback (lstmParams s)"
  proof -
    have t: "liveTrain_try env ?s1 = Throws (Error ''Not enough data for the chosen lookback.'') ?s1"
      using h by (intro liveTrain_try_insufficient) (simp_all add: s1)
    show ?thesis using caught[OF t] t by simp
  qed
  have build: "thrown (liveTrain_try env ?s1) = Some e"
    if "load_tf env = None
        \<and> build_windows (norm_v (normalize_v (map close (data s)))) (lookback (lstmParams s)) = (xs, ys)
        \<and> xs \<noteq> [] \<and> tf_build env xs ys (lstmParams s) = Some e" for e xs ys
    using that by (simp add: liveTrain_try_def Let_def s1)
  have fit: "thrown (liveTrain_try env ?s1) = Some e"
    if "load_tf env = None
        \<and> build_windows (norm_v (normalize_v (map close (data s)))) (lookback (lstmParams s)) = (xs, ys)
        \<and> xs \<noteq> [] \<and> tf_build env xs ys (lstmParams s) = None
        \<and> snd (tf_fit env xs ys (lstmParams s)) = Inl e" for e xs ys
    using that by (simp add: liveTrain_try_def Let_def s1 case_prod_beta)
  show ?thesis
    using liveTrain_never_throws caught load insufficient build fit by blast
qed


lemma s3_live_windows:
  "build_windows (norm_v (normalize_v (map close (data s3_live)))) (lookback (lstmParams s3_live))
     = ([[Fin 0, Fin (1/2)]], [Fin 1])"
  by (simp add: s3_live_def s0_def normalize_v_def Let_def Math_min_def Math_max_def range_of_fin
      num_sub_def build_windows_eq js_slice_def)

theorem liveTrain_failure_witness:
  "load_tf env0 = None \<and> length (data s1_live) \<le> lookback (lstmParams s1_live)
   \<and> alerts (final (liveTrain env0 s1_live))
        = [''Training failed: Not enough data for the chosen lookback.'']
   \<and> load_tf env_no_tf \<noteq> None
   \<and> alerts (final (liveTrain env_no_tf s3_live))
        = [''Training failed: Failed to fetch dynamically imported module'']
   \<and> tf_build env_build_fails [[Fin 0, Fin (1/2)]] [Fin 1] (lstmParams s3_live)
        = Some (Error ''build failed'')
   \<and> alerts (final (liveTrain env_build_fails s3_live)) = [''Training failed: build failed'']
   \<and> snd (tf_fit env_fit_fails [[Fin 0, Fin (1/2)]] [Fin 1] (lstmParams s3_live))
        = Inl (Error ''fit failed'')
   \<and> alerts (final (liveTrain env_fit_fails s3_live)) = [''Training failed: fit failed'']
   \<and> model (final (liveTrain env_fit_fails s3_live)) = Some (LayersModel 7)
   \<and> persistedModel (final (liveTrain env_fit_fails s3_live))
   \<and> idb_model (final (liveTrain env_fit_fails s3_live)) = Some 7"
  using liveTrain_failure[of env0 s1_live] liveTrain_failure[of env_no_tf s3_live]
    liveTrain_failure[of env_build_fails s3_live] liveTrain_failure[of env_fit_fails s3_live]
  by (simp add: liveTrain_def liveTrain_try_def try_catch_def try_finally_def Let_def
      s3_live_windows env0_def env_no_tf_def env_build_fails_def env_fit_fails_def load_tf_def
      alert_def setLossHistory_def)
    (simp add: s3_live_def s1_live_def s1_def s0_def)

section \<open>Properties of deleting the stored model\<close>

text \<open>
  Claim C9. Without IndexedDB, \<open>deletePersistedModel\<close> only reports that IndexedDB is
  not available; with IndexedDB and mock mode on, it only reports that there is no
  persisted real model; in both cases the model, the flag and the store are untouched.
  Otherwise, when the library loads and the removal succeeds, the stored entry is
  removed, the model is cleared and the flag is false. The model, the flag or the store
  change only with IndexedDB present and mock mode off. Nothing thrown leaves it.
\<close>

theorem deletePersistedModel_conditions:
  "thrown (deletePersistedModel env s) = None
   \<and> (\<not> idb_available env \<longrightarrow>
        deletePersistedModel env s
          = Returns (alert ''IndexedDB not available in this environment.'' s))
   \<and> (idb_available env \<and> mockMode s \<longrightarrow>
        deletePersistedModel env s
          = Returns (alert ''No persisted real model when in mock mode.'' s))
   \<and> (idb_available env \<and> \<not> mockMode s \<and> load_tf env = None
        \<and> tf_removeModel env (idb_model s) = None \<longrightarrow>
        deletePersistedModel env s
          = Returns (alert ''Persisted model deleted.''
              (s\<lparr>idb_model := None, persistedModel := False, model := None\<rparr>)))
   \<and> (model (final (deletePersistedModel env s)) \<noteq> model s
        \<or> persistedModel (final (deletePersistedModel env s)) \<noteq> persistedModel s
        \<or> idb_model (final (deletePersistedModel env s)) \<noteq> idb_model s \<longrightarrow>
        idb_available env \<and> \<not> mockMode s \<and> load_tf env = None
        \<and> tf_removeModel env (idb_model s) = None)"
  by (auto simp: deletePersistedModel_def deletePersistedModel_try_def try_catch_def alert_def
      split: option.splits)

theorem deletePersistedModel_conditions_witness:
  "\<not> idb_available env0
   \<and> deletePersistedModel env0 s3_live
       = Returns (s3_live\<lparr>alerts := [''IndexedDB not available in this environment.'']\<rparr>)
   \<and> idb_available (env0\<lparr>idb_available := True\<rparr>) \<and> mockMode (s3_live\<lparr>mockMode := True\<rparr>)
   \<and> deletePersistedModel (env0\<lparr>idb_available := True\<rparr>) (s3_live\<lparr>mockMode := True\<rparr>)
       = Returns (s3_live\<lparr>mockMode := True,
                    alerts := [''No persisted real model when in mock mode.'']\<rparr>)
   \<and> \<not> mockMode s3_live \<and> load_tf (env0\<lparr>idb_available := True\<rparr>) = None
   \<and> tf_removeModel (env0\<lparr>idb_available := True\<rparr>) (idb_model s3_live) = None
   \<and> deletePersistedModel (env0\<lparr>idb_available := True\<rparr>) s3_live
       = Returns (s3_live\<lparr>idb_model := None, persistedModel := False, model := None,
                    alerts := [''Persisted model deleted.'']\<rparr>)
   \<and> model (final (deletePersistedModel (env0\<lparr>idb_available := True\<rparr>) s3_live)) \<noteq> model s3_live"
  using deletePersistedModel_conditions[of env0 s3_live]
    deletePersistedModel_conditions[of "env0\<lparr>idb_available := True\<rparr>" "s3_live\<lparr>mockMode := True\<rparr>"]
    deletePersistedModel_conditions[of "env0\<lparr>idb_available := True\<rparr>" s3_live]
  by (simp add: env0_def s3_live_def s0_def load_tf_def alert_def)

section \<open>Properties of the forecast dates\<close>

lemma futureDates_constant_offset:
  assumes "\<forall>t b. localTZA env t b = c"
  shows "futureDates env (new_Date D) H = map (\<lambda>i. D + int i + 1) [0..<H]"
proof -
  have "toISOString_date (setDate_getDate_plus env (new_Date D) k) = D + k" for k
  proof -
    have "(Day (D * msPerDay + c) + k) * msPerDay + TimeWithinDay (D * msPerDay + c)
            = (D + k) * msPerDay + c"
    proof -
      have "Day (D * msPerDay + c) * msPerDay + TimeWithinDay (D * msPerDay + c) = D * msPerDay + c"
        unfolding Day_def TimeWithinDay_def by (rule div_mult_mod_eq)
      then show ?thesis by (simp only: distrib_right)
    qed
    then show ?thesis
      using assms
      by (simp add: toISOString_date_def setDate_getDate_plus_def LocalTime_def UTC_def new_Date_def
          Let_def Day_def msPerDay_def)
  qed
  then show ?thesis by (simp add: futureDates_def add.assoc)
qed

lemma length_futureDates: "length (futureDates env t H) = H"
  by (simp add: futureDates_def)

lemma futureDates_new_york:
  "futureDates env_new_york (new_Date 19790) 5 = [19791, 19792, 19792, 19793, 19794]"
proof -
  have "[0..<5] = [0, 1, 2, 3, Suc 3]" by (simp add: upt_rec)
  then show ?thesis
  by (simp add: futureDates_def toISOString_date_def setDate_getDate_plus_def LocalTime_def
      UTC_def new_Date_def Let_def Day_def TimeWithinDay_def msPerDay_def env_new_york_def env0_def)
qed


section \<open>Properties of mock prediction\<close>

lemma mockPredict_loop_eq:
  "mockPredict_loop env lastv H i preds = preds @ map (mock_price env lastv) [i..<Suc H]"
proof (induction env lastv H i preds rule: mockPredict_loop.induct)
  case (1 env lastv H i preds)
  show ?case
  proof (cases "i \<le> H")
    case True
    have "[i..<Suc H] = i # [Suc i..<Suc H]"
      using True by (simp add: upt_conv_Cons del: upt_Suc)
    then show ?thesis
      using True "1.IH" by (subst mockPredict_loop.simps) (simp del: upt_Suc)
  next
    case False
    then show ?thesis by (subst mockPredict_loop.simps) simp
  qed
qed

lemma length_pair_up:
  "length dates = length preds \<Longrightarrow> length (pair_up dates preds) = length preds"
  by (simp add: pair_up_def)

lemma map_pair_up:
  assumes "length dates = length preds"
  shows "map date (pair_up dates preds) = dates" and "map close (pair_up dates preds) = preds"
  using assms by (induction dates preds rule: list_induct2) (simp_all add: pair_up_def)

lemma mock_price_fin:
  "mock_price env (Fin P) i = Fin (P + (sin (real i) + random env (i - 1) * 0.5) * P * 0.01)"
  by (simp add: mock_price_def)

text \<open>
  What mock prediction does for a non-empty series: \<open>H\<close> points, point \<open>i\<close> (from 1)
  with the price \<open>mock_price env P i\<close>, which for a finite last close \<open>P\<close> is
  \<open>P + (sin(i) + r * 0.5) * P * 0.01\<close>, and with the dates of \<open>futureDates\<close>. Where the
  offset of local time from UTC is one constant, these are the days \<open>D + 1, ..., D + H\<close>.
  For an empty series nothing changes.
\<close>

lemma mockPredict_forecast:
  assumes "data s \<noteq> []"
  shows "map close (predictions (mockPredict env H s))
           = map (mock_price env (close (last (data s)))) [1..<Suc H]"
    and "map date (predictions (mockPredict env H s))
           = futureDates env (new_Date (date (last (data s)))) H"
    and "length (predictions (mockPredict env H s)) = H"
  using assms
  by (simp_all add: mockPredict_def Let_def alert_def mockPredict_loop_eq map_pair_up
      length_pair_up length_futureDates del: upt_Suc)

lemma mockPredict_dates_constant_offset:
  assumes "data s \<noteq> []" and "\<forall>t b. localTZA env t b = c"
  shows "map date (predictions (mockPredict env H s))
           = map (\<lambda>i. date (last (data s)) + int i + 1) [0..<H]"
  using mockPredict_forecast(2)[OF assms(1)] futureDates_constant_offset[OF assms(2)] by simp

lemma mockPredict_empty: "data s = [] \<Longrightarrow> mockPredict env H s = s"
  by (simp add: mockPredict_def)

text \<open>
  Claim C8 fails on the dates. In New York, with the last known date 2024-03-08 (day
  19790) and the horizon 5 of the Predict button, the forecast dates are 2024-03-09,
  2024-03-10, 2024-03-10, 2024-03-11 and 2024-03-12: \<open>setDate\<close> moves the local date,
  \<open>toISOString\<close> prints the UTC date, and from the start of daylight saving time on the
  local evening of the last known date is one hour short of the next UTC day.
\<close>

theorem mockPredict_dates_new_york:
  "map date (predictions (mockPredict env_new_york 5 s1))
     = [19791, 19792, 19792, 19793, 19794]"
proof -
  have "data s1 \<noteq> []" "date (last (data s1)) = 19790"
    by (simp_all add: s1_def)
  then show ?thesis
    using mockPredict_forecast(2)[of s1 env_new_york 5] futureDates_new_york by simp
qed

section \<open>Properties of live prediction\<close>









text \<open>
  With the hypotheses of \<open>live_rollout_ok\<close> the rollout is as the spec describes it.
  The other ways live prediction ends: with no model held and none to load it returns at
  once and changes nothing; with the marker object of mock training held, the first step
  throws, which is reported as a failed prediction.
\<close>

lemma livePredict_no_model:
  assumes "data s \<noteq> []" and "\<not> mockMode s" and "tfAvailable s" and "load_tf env = None"
    and "model s = None"
    and "\<not> idb_available env \<or> (\<exists>e. tf_loadLayersModel env (idb_model s) = Inl e)"
  shows "predictLSTM env H s = Returns s"
  using assms
  by (auto simp: predictLSTM_def livePredict_def livePredict_try_def try_catch_def)

lemma livePredict_mock_marker:
  assumes "data s \<noteq> []" and "\<not> mockMode s" and "tfAvailable s" and "load_tf env = None"
    and "model s = Some (MockModel t)"
    and "1 \<le> lookback (lstmParams s)" and "lookback (lstmParams s) \<le> length (data s)"
    and "1 \<le> H"
  shows "predictLSTM env H s
           = Returns (alert (''Prediction failed: '' @ err_text (type_error env)) s)"
proof -
  let ?w = "slice_last (norm_v (normalize_v (map close (data s)))) (lookback (lstmParams s))"
  have len: "length ?w = lookback (lstmParams s)"
    using assms(6,7) by (simp add: slice_last_def length_norm_v)
  have "rollout env (MockModel t) (lookback (lstmParams s)) H 0 ?w [] = Inl (type_error env)"
    using assms(8) len by (subst rollout.simps) (simp add: reshape_input_def)
  then show ?thesis
    using assms(1-5)
    by (simp add: predictLSTM_def livePredict_def livePredict_try_def try_catch_def
        live_forecast_def Let_def)
qed




end
